theory Spec2Isabelle
  imports
    Main
    "HOL-Library.Char_ord"
    "HOL-Library.List_Lexorder"
    "HOL-Library.Option_ord"
    "HOL-Library.Multiset"
begin

section \<open>Data model\<close>

text \<open>
  The four controllers work on four collections of a document store. A document is a
  record; a collection is the list of its documents in the store's natural order.
  Identifiers, text fields and dates are strings. The \<open>_id\<close> of a document is the field
  \<open>author_id\<close>, \<open>genre_id\<close>, \<open>book_id\<close> or \<open>bookinstance_id\<close>.

  A path that a document may leave undefined has an option type, \<open>None\<close> for undefined: the
  reference to an author or a book, and the dates. A date path can also hold \<open>null\<close>, which
  is \<open>Some None\<close>. The models are not among the sources: their validators and defaults
  are not part of this development.
\<close>

type_synonym ident = string
type_synonym date = string

record Author =
  author_id :: ident
  first_name :: string
  family_name :: string
  date_of_birth :: "date option option"
  date_of_death :: "date option option"

record Genre =
  genre_id :: ident
  name :: string

record Book =
  book_id :: ident
  title :: string
  author :: "ident option"
  summary :: string
  isbn :: string
  genre :: "ident list"

record BookInstance =
  bookinstance_id :: ident
  book :: "ident option"
  imprint :: string
  status :: string
  due_back :: "date option option"

record store =
  authors :: "Author list"
  genres :: "Genre list"
  books :: "Book list"
  bookinstances :: "BookInstance list"

section \<open>Requests and responses\<close>

text \<open>
  \<open>req.params.id\<close> is \<open>params_id\<close>. The delete forms post the identifier in a hidden
  field (\<open>req.body.authorid\<close> for an author, \<open>req.body.id\<close> otherwise), here \<open>body_id\<close>.
  Both are taken to be well-formed identifiers. The other scalar form fields are the
  map \<open>body\<close> from field name to value: a field is undefined (\<open>None\<close>), \<open>null\<close> (\<open>Some None\<close>) or a
  string. \<open>req.body.genre\<close> arrives as nothing, one value or an array, and is kept apart as
  \<open>body_genre\<close>.
\<close>

datatype genre_field = Undefined | Scalar string | Array "string list"

record request =
  params_id :: ident
  body_id :: ident
  body :: "string \<rightharpoonup> string option"
  body_genre :: genre_field

text \<open>
  The messages of the validation chains are fixed Japanese sentences; each is named by
  a constructor.
\<close>

datatype msg =
    FirstNameRequired | FirstNameAlphanumeric
  | FamilyNameRequired | FamilyNameAlphanumeric
  | DateOfBirthInvalid | DateOfDeathInvalid
  | GenreNameMin3
  | TitleRequired | AuthorRequired | SummaryRequired | IsbnRequired
  | BookRequired | ImprintRequired | DueBackInvalid

type_synonym verror = "string \<times> msg"

datatype error = TypeError | DuplicateKey

datatype val =
    Null
  | IdV ident
  | ErrorsV "verror list"
  | AuthorV Author
  | AuthorsV "Author list"
  | GenreV Genre
  | GenresV "Genre list"
  | CheckedGenresV "(Genre \<times> bool) list"
  | BookV Book
  | BookPopulatedV Book "Author option" "Genre list"
  | TitleSummaryV "(ident \<times> string \<times> string) list"
  | TitleAuthorV "(ident \<times> string \<times> Author option) list"
  | TitleV "(ident \<times> string) list"
  | BookInstanceV BookInstance
  | BookInstancesV "BookInstance list"
  | BookInstancePopulatedV BookInstance "Book option"
  | BookInstancesPopulatedV "(BookInstance \<times> Book option) list"

text \<open>
  A handler's effect on the response is the sequence of calls it makes: \<open>res.render\<close>
  with a template and its context, \<open>res.redirect\<close> with a path, or \<open>next(err)\<close>, which
  is also where \<open>asyncHandler\<close> sends an exception thrown in the handler. The \<open>title\<close>
  entry of a context is a fixed literal and is left out.
\<close>

datatype action =
    Render string "(string \<times> val) list"
  | Redirect string
  | Next error

type_synonym response = "store \<times> action list"

definition nullable :: "('a \<Rightarrow> val) \<Rightarrow> 'a option \<Rightarrow> val" where
  "nullable f x = (case x of None \<Rightarrow> Null | Some a \<Rightarrow> f a)"

section \<open>The document store\<close>

text \<open>
  The operations of the object-document mapper that the controllers call, on one
  collection, with the function that reads a document's \<open>_id\<close>.
\<close>

definition findById :: "('a \<Rightarrow> ident) \<Rightarrow> 'a list \<Rightarrow> ident \<Rightarrow> 'a option" where
  "findById ident xs i = find (\<lambda>x. ident x = i) xs"

fun findByIdAndDelete :: "('a \<Rightarrow> ident) \<Rightarrow> 'a list \<Rightarrow> ident \<Rightarrow> 'a list" where
  "findByIdAndDelete ident [] i = []"
| "findByIdAndDelete ident (x # xs) i =
     (if ident x = i then xs else x # findByIdAndDelete ident xs i)"

text \<open>
  \<open>findByIdAndUpdate\<close> with a document sets, in the stored document, the paths that the
  given document defines, and leaves the others as they are stored; \<open>setp\<close> is that
  operation for the collection. It returns the document as it was before, or \<open>null\<close>
  when no document has the identifier; it does not insert.
\<close>

fun update_first ::
  "('a \<Rightarrow> ident) \<Rightarrow> ('a \<Rightarrow> 'a \<Rightarrow> 'a) \<Rightarrow> 'a list \<Rightarrow> ident \<Rightarrow> 'a \<Rightarrow> 'a list" where
  "update_first ident setp [] i d = []"
| "update_first ident setp (x # xs) i d =
     (if ident x = i then setp d x # xs else x # update_first ident setp xs i d)"

definition findByIdAndUpdate ::
  "('a \<Rightarrow> ident) \<Rightarrow> ('a \<Rightarrow> 'a \<Rightarrow> 'a) \<Rightarrow> 'a list \<Rightarrow> ident \<Rightarrow> 'a \<Rightarrow> 'a option \<times> 'a list" where
  "findByIdAndUpdate ident setp xs i d = (findById ident xs i, update_first ident setp xs i d)"

text \<open>The value of a path after the update: the new one when it is defined.\<close>

definition written :: "'a option \<Rightarrow> 'a option \<Rightarrow> 'a option" where
  "written new old = (case new of None \<Rightarrow> old | Some v \<Rightarrow> Some v)"

definition set_Author :: "Author \<Rightarrow> Author \<Rightarrow> Author" where
  "set_Author d old =
     old\<lparr>first_name := first_name d,
         family_name := family_name d,
         date_of_birth := written (date_of_birth d) (date_of_birth old),
         date_of_death := written (date_of_death d) (date_of_death old)\<rparr>"

definition set_Genre :: "Genre \<Rightarrow> Genre \<Rightarrow> Genre" where
  "set_Genre d old = old\<lparr>name := name d\<rparr>"

definition set_Book :: "Book \<Rightarrow> Book \<Rightarrow> Book" where
  "set_Book d old =
     old\<lparr>title := title d,
         author := written (author d) (author old),
         summary := summary d,
         isbn := isbn d,
         genre := genre d\<rparr>"

definition set_BookInstance :: "BookInstance \<Rightarrow> BookInstance \<Rightarrow> BookInstance" where
  "set_BookInstance d old =
     old\<lparr>book := written (book d) (book old),
         imprint := imprint d,
         status := status d,
         due_back := written (due_back d) (due_back old)\<rparr>"

text \<open>\<open>save\<close> inserts a new document; the store rejects a second document with an
  identifier already in use.\<close>

definition save :: "('a \<Rightarrow> ident) \<Rightarrow> 'a list \<Rightarrow> 'a \<Rightarrow> error + 'a list" where
  "save ident xs d =
     (if findById ident xs (ident d) = None then Inr (xs @ [d]) else Inl DuplicateKey)"

text \<open>
  Modelled from the spec: the \<open>url\<close> virtual of the Author model, which is not among the
  sources. The detail view of an entity is at \<open>/{entity}/{id}\<close>, under the \<open>/catalog\<close>
  prefix of the list paths that the controllers redirect to.
\<close>

definition author_url :: "Author \<Rightarrow> string" where
  "author_url a = ''/catalog/author/'' @ author_id a"

text \<open>Modelled from the spec: the \<open>url\<close> virtual of the Genre model, as for Author.\<close>

definition genre_url :: "Genre \<Rightarrow> string" where
  "genre_url g = ''/catalog/genre/'' @ genre_id g"

text \<open>Modelled from the spec: the \<open>url\<close> virtual of the Book model, as for Author.\<close>

definition book_url :: "Book \<Rightarrow> string" where
  "book_url b = ''/catalog/book/'' @ book_id b"

text \<open>Modelled from the spec: the \<open>url\<close> virtual of the BookInstance model, as for Author.\<close>

definition bookinstance_url :: "BookInstance \<Rightarrow> string" where
  "bookinstance_url i = ''/catalog/bookinstance/'' @ bookinstance_id i"

text \<open>Queries with a filter, a projection or \<open>populate\<close>.\<close>

definition books_by_author :: "store \<Rightarrow> ident \<Rightarrow> Book list" where
  "books_by_author st i = filter (\<lambda>b. author b = Some i) (books st)"

definition books_in_genre :: "store \<Rightarrow> ident \<Rightarrow> Book list" where
  "books_in_genre st i = filter (\<lambda>b. i \<in> set (genre b)) (books st)"

definition instances_of_book :: "store \<Rightarrow> ident \<Rightarrow> BookInstance list" where
  "instances_of_book st i = filter (\<lambda>c. book c = Some i) (bookinstances st)"

definition title_summary :: "Book list \<Rightarrow> (ident \<times> string \<times> string) list" where
  "title_summary bs = map (\<lambda>b. (book_id b, title b, summary b)) bs"

definition title_only :: "Book list \<Rightarrow> (ident \<times> string) list" where
  "title_only bs = map (\<lambda>b. (book_id b, title b)) bs"

definition title_author :: "store \<Rightarrow> Book list \<Rightarrow> (ident \<times> string \<times> Author option) list" where
  "title_author st bs =
     map (\<lambda>b. (book_id b, title b,
               Option.bind (author b) (findById author_id (authors st)))) bs"

definition populate_book :: "store \<Rightarrow> Book \<Rightarrow> val" where
  "populate_book st b =
     BookPopulatedV b (Option.bind (author b) (findById author_id (authors st)))
       (List.map_filter (findById genre_id (genres st)) (genre b))"

definition populate_bookinstance :: "store \<Rightarrow> BookInstance \<Rightarrow> BookInstance \<times> Book option" where
  "populate_bookinstance st c = (c, Option.bind (book c) (findById book_id (books st)))"

section \<open>Validation and sanitisation\<close>

text \<open>
  The sanitisers and validators of the validation library that the chains use, on
  ASCII strings. \<open>isISO8601\<close> and \<open>toDate\<close> are taken as parameters.
\<close>

definition isSpace :: "char \<Rightarrow> bool" where
  "isSpace c = (c = CHR '' '' \<or> (CHR 0x09 \<le> c \<and> c \<le> CHR 0x0D))"

definition trim :: "string \<Rightarrow> string" where
  "trim s = rev (dropWhile isSpace (rev (dropWhile isSpace s)))"

definition escape_char :: "char \<Rightarrow> string" where
  "escape_char c =
     (if c = CHR ''&'' then ''&amp;''
      else if c = CHR 0x22 then ''&quot;''
      else if c = CHR 0x27 then ''&#x27;''
      else if c = CHR ''<'' then ''&lt;''
      else if c = CHR ''>'' then ''&gt;''
      else if c = CHR ''/'' then ''&#x2F;''
      else if c = CHR 0x5C then ''&#x5C;''
      else if c = CHR 0x60 then ''&#96;''
      else [c])"

definition escape :: "string \<Rightarrow> string" where
  "escape s = concat (map escape_char s)"

definition isLength :: "nat \<Rightarrow> string \<Rightarrow> bool" where
  "isLength n s = (n \<le> length s)"

definition isAlnumChar :: "char \<Rightarrow> bool" where
  "isAlnumChar c =
     ((CHR ''0'' \<le> c \<and> c \<le> CHR ''9'') \<or> (CHR ''A'' \<le> c \<and> c \<le> CHR ''Z'')
      \<or> (CHR ''a'' \<le> c \<and> c \<le> CHR ''z''))"

definition isAlphanumeric :: "string \<Rightarrow> bool" where
  "isAlphanumeric s = (s \<noteq> [] \<and> list_all isAlnumChar s)"

record validator_lib =
  isISO8601 :: "string \<Rightarrow> bool"
  toDate :: "string \<Rightarrow> date option"

text \<open>
  A chain \<open>body(path, message)\<close> is its path, whether it is \<open>optional({values: "falsy"})\<close>,
  and its items in order. \<open>withMessage\<close> sets the message of the validator before it. A
  standard validator or sanitiser reads the value as a string, \<open>undefined\<close> and \<open>null\<close> as
  the empty one; the value a sanitiser returns, a string or \<open>null\<close>, is written back to
  \<open>req.body\<close>. An optional chain is skipped when the value is falsy. Every failing
  validator adds its error, in order (no chain uses \<open>bail\<close>).
\<close>

datatype item = Sanitizer "string \<Rightarrow> string option" | Validator "string \<Rightarrow> bool" msg

datatype chain = Chain string bool "item list"

definition toString :: "string option option \<Rightarrow> string" where
  "toString v = (case v of Some (Some s) \<Rightarrow> s | _ \<Rightarrow> [])"

definition falsy :: "string option option \<Rightarrow> bool" where
  "falsy v = (toString v = [])"

fun run_items ::
  "string \<Rightarrow> item list \<Rightarrow> string option option \<Rightarrow> string option option \<times> verror list" where
  "run_items p [] v = (v, [])"
| "run_items p (Sanitizer f # its) v = run_items p its (Some (f (toString v)))"
| "run_items p (Validator ok m # its) v =
     (case run_items p its v of
        (v', es) \<Rightarrow> (v', if ok (toString v) then es else (p, m) # es))"

fun run_chain :: "chain \<Rightarrow> request \<times> verror list \<Rightarrow> request \<times> verror list" where
  "run_chain (Chain p opt its) (r, errs) =
     (if opt \<and> falsy (body r p) then (r, errs)
      else case run_items p its (body r p) of
        (v, es) \<Rightarrow> (r\<lparr>body := (body r)(p := v)\<rparr>, errs @ es))"

definition run_chains :: "chain list \<Rightarrow> request \<Rightarrow> request \<times> verror list" where
  "run_chains cs r = foldl (\<lambda>s c. run_chain c s) (r, []) cs"

definition required :: "string \<Rightarrow> nat \<Rightarrow> msg \<Rightarrow> chain" where
  "required p n m =
     Chain p False [Sanitizer (\<lambda>s. Some (trim s)), Validator (isLength n) m,
                    Sanitizer (\<lambda>s. Some (escape s))]"

definition optional_date :: "validator_lib \<Rightarrow> string \<Rightarrow> msg \<Rightarrow> chain" where
  "optional_date V p m = Chain p True [Validator (isISO8601 V) m, Sanitizer (toDate V)]"

text \<open>
  What a model constructor makes of a value. A date path keeps \<open>undefined\<close> and \<open>null\<close> and
  takes the empty string to \<open>null\<close>. A reference path holds an identifier; identifiers
  are abstract here, and a string stands for one when it is not empty and made of
  letters and digits. Any other string is not cast, and the path stays undefined; an
  array of references with such an element stays empty.
\<close>

definition date_field :: "string option option \<Rightarrow> date option option" where
  "date_field v =
     (case v of
        Some (Some s) \<Rightarrow> if s = [] then Some None else Some (Some s)
      | _ \<Rightarrow> v)"

definition isIdent :: "string \<Rightarrow> bool" where
  "isIdent s = isAlphanumeric s"

definition castObjectId :: "string \<Rightarrow> ident option" where
  "castObjectId s = (if isIdent s then Some s else None)"

definition castObjectIds :: "string list \<Rightarrow> ident list" where
  "castObjectIds xs = (if list_all isIdent xs then xs else [])"

section \<open>Author controller\<close>

definition author_list :: "store \<Rightarrow> response" where
  "author_list st =
     (let allAuthors = sort_key family_name (authors st)
      in (st, [Render ''author_list'' [(''author_list'', AuthorsV allAuthors)]]))"

definition author_chains :: "validator_lib \<Rightarrow> chain list" where
  "author_chains V =
     [Chain ''first_name'' False
        [Sanitizer (\<lambda>s. Some (trim s)), Validator (isLength 1) FirstNameRequired,
         Sanitizer (\<lambda>s. Some (escape s)), Validator isAlphanumeric FirstNameAlphanumeric],
      Chain ''family_name'' False
        [Sanitizer (\<lambda>s. Some (trim s)), Validator (isLength 1) FamilyNameRequired,
         Sanitizer (\<lambda>s. Some (escape s)), Validator isAlphanumeric FamilyNameAlphanumeric],
      optional_date V ''date_of_birth'' DateOfBirthInvalid,
      optional_date V ''date_of_death'' DateOfDeathInvalid]"

definition new_Author :: "ident \<Rightarrow> request \<Rightarrow> Author" where
  "new_Author i r =
     \<lparr>author_id = i,
      first_name = toString (body r ''first_name''),
      family_name = toString (body r ''family_name''),
      date_of_birth = date_field (body r ''date_of_birth''),
      date_of_death = date_field (body r ''date_of_death'')\<rparr>"

text \<open>\<open>oid\<close> is the identifier that the model constructor generates for a new document.\<close>

definition author_create_post :: "validator_lib \<Rightarrow> ident \<Rightarrow> request \<Rightarrow> store \<Rightarrow> response" where
  "author_create_post V oid req st =
     (case run_chains (author_chains V) req of
        (r, errors) \<Rightarrow>
          let author = new_Author oid r in
          if errors \<noteq> [] then
            (st, [Render ''author_form'' [(''author'', AuthorV author), (''errors'', ErrorsV errors)]])
          else
            (case save author_id (authors st) author of
               Inl e \<Rightarrow> (st, [Next e])
             | Inr xs \<Rightarrow> (st\<lparr>authors := xs\<rparr>, [Redirect (author_url author)])))"

definition author_delete_get :: "request \<Rightarrow> store \<Rightarrow> response" where
  "author_delete_get req st =
     (let author = findById author_id (authors st) (params_id req);
          allBooksByAuthor = title_summary (books_by_author st (params_id req))
      in (st, (if author = None then [Redirect ''/catalog/authors''] else [])
              @ [Render ''author_delete''
                   [(''author'', nullable AuthorV author),
                    (''author_books'', TitleSummaryV allBooksByAuthor)]]))"

definition author_delete_post :: "request \<Rightarrow> store \<Rightarrow> response" where
  "author_delete_post req st =
     (let author = findById author_id (authors st) (params_id req);
          allBooksByAuthor = title_summary (books_by_author st (params_id req))
      in if length allBooksByAuthor > 0 then
           (st, [Render ''author_delete''
                   [(''author'', nullable AuthorV author),
                    (''author_books'', TitleSummaryV allBooksByAuthor)]])
         else
           (st\<lparr>authors := findByIdAndDelete author_id (authors st) (body_id req)\<rparr>,
            [Redirect ''/catalog/authors'']))"

definition author_update_post :: "validator_lib \<Rightarrow> request \<Rightarrow> store \<Rightarrow> response" where
  "author_update_post V req st =
     (case run_chains (author_chains V) req of
        (r, errors) \<Rightarrow>
          let author = new_Author (params_id req) r in
          if errors \<noteq> [] then
            (st, [Render ''author_form'' [(''author'', AuthorV author), (''errors'', ErrorsV errors)]])
          else
            (case findByIdAndUpdate author_id set_Author (authors st) (params_id req) author of
               (old, xs) \<Rightarrow> (st\<lparr>authors := xs\<rparr>, [Redirect (author_url author)])))"

section \<open>Genre controller\<close>

definition genre_list :: "store \<Rightarrow> response" where
  "genre_list st =
     (let allGenres = sort_key name (genres st)
      in (st, [Render ''genre_list'' [(''list_genres'', GenresV allGenres)]]))"

definition genre_chains :: "chain list" where
  "genre_chains = [required ''name'' 3 GenreNameMin3]"

definition new_Genre :: "ident \<Rightarrow> request \<Rightarrow> Genre" where
  "new_Genre i r = \<lparr>genre_id = i, name = toString (body r ''name'')\<rparr>"

text \<open>
  \<open>findOne({name: n})\<close> under the collation \<open>{locale: "en", strength: 2}\<close>: the first genre
  whose name equals \<open>n\<close> when the case of the letters is ignored.
\<close>

definition toLower :: "char \<Rightarrow> char" where
  "toLower c =
     (case map_of (zip ''ABCDEFGHIJKLMNOPQRSTUVWXYZ'' ''abcdefghijklmnopqrstuvwxyz'') c of
        Some l \<Rightarrow> l
      | None \<Rightarrow> c)"



definition genre_delete_get :: "request \<Rightarrow> store \<Rightarrow> response" where
  "genre_delete_get req st =
     (let genre = findById genre_id (genres st) (params_id req);
          booksInGenre = title_summary (books_in_genre st (params_id req))
      in (st, (if genre = None then [Redirect ''/catalog/genres''] else [])
              @ [Render ''genre_delete''
                   [(''genre'', nullable GenreV genre),
                    (''genre_books'', TitleSummaryV booksInGenre)]]))"

definition genre_delete_post :: "request \<Rightarrow> store \<Rightarrow> response" where
  "genre_delete_post req st =
     (let genre = findById genre_id (genres st) (params_id req);
          booksInGenre = title_summary (books_in_genre st (params_id req))
      in if length booksInGenre > 0 then
           (st, [Render ''genre_delete''
                   [(''genre'', nullable GenreV genre),
                    (''genre_books'', TitleSummaryV booksInGenre)]])
         else
           (st\<lparr>genres := findByIdAndDelete genre_id (genres st) (body_id req)\<rparr>,
            [Redirect ''/catalog/genres'']))"

definition genre_update_post :: "request \<Rightarrow> store \<Rightarrow> response" where
  "genre_update_post req st =
     (case run_chains genre_chains req of
        (r, errors) \<Rightarrow>
          let genre = new_Genre (params_id req) r in
          if errors \<noteq> [] then
            (st, [Render ''genre_form'' [(''genre'', GenreV genre), (''errors'', ErrorsV errors)]])
          else
            (case findByIdAndUpdate genre_id set_Genre (genres st) (params_id req) genre of
               (old, xs) \<Rightarrow> (st\<lparr>genres := xs\<rparr>, [Redirect (genre_url genre)])))"

section \<open>Book controller\<close>

definition book_list :: "store \<Rightarrow> response" where
  "book_list st =
     (let allBooks = title_author st (sort_key title (books st))
      in (st, [Render ''book_list'' [(''book_list'', TitleAuthorV allBooks)]]))"

text \<open>The first middleware of both book forms turns \<open>req.body.genre\<close> into an array.\<close>

definition genre_to_array :: "request \<Rightarrow> request" where
  "genre_to_array req =
     (case body_genre req of
        Array xs \<Rightarrow> req
      | Undefined \<Rightarrow> req\<lparr>body_genre := Array []\<rparr>
      | Scalar s \<Rightarrow> req\<lparr>body_genre := Array [s]\<rparr>)"

definition book_chains :: "chain list" where
  "book_chains =
     [required ''title'' 1 TitleRequired,
      required ''author'' 1 AuthorRequired,
      required ''summary'' 1 SummaryRequired,
      required ''isbn'' 1 IsbnRequired]"

text \<open>\<open>body("genre.*").escape()\<close> escapes every element of the array.\<close>

definition escape_genre :: "request \<Rightarrow> request" where
  "escape_genre r =
     (case body_genre r of
        Array xs \<Rightarrow> r\<lparr>body_genre := Array (map escape xs)\<rparr>
      | _ \<Rightarrow> r)"

definition book_validate :: "request \<Rightarrow> request \<times> verror list" where
  "book_validate req =
     (case run_chains book_chains (genre_to_array req) of
        (r, errors) \<Rightarrow> (escape_genre r, errors))"

definition genre_array :: "genre_field \<Rightarrow> string list" where
  "genre_array g = (case g of Undefined \<Rightarrow> [] | Scalar s \<Rightarrow> [s] | Array xs \<Rightarrow> xs)"

definition new_Book :: "ident \<Rightarrow> request \<Rightarrow> Book" where
  "new_Book i r =
     \<lparr>book_id = i,
      title = toString (body r ''title''),
      author = castObjectId (toString (body r ''author'')),
      summary = toString (body r ''summary''),
      isbn = toString (body r ''isbn''),
      genre = castObjectIds (genre_array (body_genre r))\<rparr>"

definition book_form_context :: "store \<Rightarrow> Book \<Rightarrow> verror list \<Rightarrow> (string \<times> val) list" where
  "book_form_context st b errors =
     (let allAuthors = sort_key family_name (authors st);
          allGenres = sort_key name (genres st)
      in [(''authors'', AuthorsV allAuthors),
          (''genres'', CheckedGenresV (map (\<lambda>g. (g, genre_id g \<in> set (genre b))) allGenres)),
          (''book'', BookV b),
          (''errors'', ErrorsV errors)])"

definition book_create_post :: "ident \<Rightarrow> request \<Rightarrow> store \<Rightarrow> response" where
  "book_create_post oid req st =
     (case book_validate req of
        (r, errors) \<Rightarrow>
          let book = new_Book oid r in
          if errors \<noteq> [] then (st, [Render ''book_form'' (book_form_context st book errors)])
          else
            (case save book_id (books st) book of
               Inl e \<Rightarrow> (st, [Next e])
             | Inr xs \<Rightarrow> (st\<lparr>books := xs\<rparr>, [Redirect (book_url book)])))"

definition book_delete_get :: "request \<Rightarrow> store \<Rightarrow> response" where
  "book_delete_get req st =
     (let book = findById book_id (books st) (params_id req);
          bookInstances = instances_of_book st (params_id req)
      in (st, (if book = None then [Redirect ''/catalog/books''] else [])
              @ [Render ''book_delete''
                   [(''book'', nullable (populate_book st) book),
                    (''book_instances'', BookInstancesV bookInstances)]]))"

definition book_delete_post :: "request \<Rightarrow> store \<Rightarrow> response" where
  "book_delete_post req st =
     (let book = findById book_id (books st) (params_id req);
          bookInstances = instances_of_book st (params_id req);
          first = (if book = None then [Redirect ''/catalog/books''] else [])
      in if length bookInstances > 0 then
           (st, first @ [Render ''book_delete''
                           [(''book'', nullable (populate_book st) book),
                            (''book_instances'', BookInstancesV bookInstances)]])
         else
           (st\<lparr>books := findByIdAndDelete book_id (books st) (body_id req)\<rparr>,
            first @ [Redirect ''/catalog/books'']))"

text \<open>
  \<open>thebook\<close> is what \<open>findByIdAndUpdate\<close> returns; reading \<open>thebook.url\<close> when it is
  \<open>null\<close> throws a \<open>TypeError\<close>.
\<close>

definition book_update_post :: "request \<Rightarrow> store \<Rightarrow> response" where
  "book_update_post req st =
     (case book_validate req of
        (r, errors) \<Rightarrow>
          let book = new_Book (params_id req) r in
          if errors \<noteq> [] then (st, [Render ''book_form'' (book_form_context st book errors)])
          else
            (case findByIdAndUpdate book_id set_Book (books st) (params_id req) book of
               (thebook, xs) \<Rightarrow>
                 (st\<lparr>books := xs\<rparr>,
                  [case thebook of None \<Rightarrow> Next TypeError | Some b \<Rightarrow> Redirect (book_url b)])))"

section \<open>BookInstance controller\<close>

definition bookinstance_list :: "store \<Rightarrow> response" where
  "bookinstance_list st =
     (let allBookInstances = map (populate_bookinstance st) (bookinstances st)
      in (st, [Render ''bookinstance_list''
                 [(''bookinstance_list'', BookInstancesPopulatedV allBookInstances)]]))"

definition bookinstance_chains :: "validator_lib \<Rightarrow> chain list" where
  "bookinstance_chains V =
     [required ''book'' 1 BookRequired,
      required ''imprint'' 1 ImprintRequired,
      Chain ''status'' False [Sanitizer (\<lambda>s. Some (escape s))],
      optional_date V ''due_back'' DueBackInvalid]"

definition new_BookInstance :: "ident \<Rightarrow> request \<Rightarrow> BookInstance" where
  "new_BookInstance i r =
     \<lparr>bookinstance_id = i,
      book = castObjectId (toString (body r ''book'')),
      imprint = toString (body r ''imprint''),
      status = toString (body r ''status''),
      due_back = date_field (body r ''due_back'')\<rparr>"

text \<open>
  The context of the form has \<open>selected_book: bookInstance.book._id\<close>. The \<open>_id\<close> of an
  identifier is the identifier; when the \<open>book\<close> path of the document is undefined, reading
  its \<open>_id\<close> throws a \<open>TypeError\<close> before \<open>res.render\<close> is called.
\<close>

definition bookinstance_form_context ::
  "Book list \<Rightarrow> ident \<Rightarrow> BookInstance \<Rightarrow> verror list \<Rightarrow> (string \<times> val) list" where
  "bookinstance_form_context allBooks selected_book bookInstance errors =
     [(''book_list'', TitleV (title_only allBooks)),
      (''selected_book'', IdV selected_book),
      (''errors'', ErrorsV errors),
      (''bookinstance'', BookInstanceV bookInstance)]"

definition bookinstance_form ::
  "Book list \<Rightarrow> BookInstance \<Rightarrow> verror list \<Rightarrow> action" where
  "bookinstance_form allBooks bookInstance errors =
     (case book bookInstance of
        None \<Rightarrow> Next TypeError
      | Some selected_book \<Rightarrow>
          Render ''bookinstance_form''
            (bookinstance_form_context allBooks selected_book bookInstance errors))"

definition bookinstance_create_post ::
  "validator_lib \<Rightarrow> ident \<Rightarrow> request \<Rightarrow> store \<Rightarrow> response" where
  "bookinstance_create_post V oid req st =
     (case run_chains (bookinstance_chains V) req of
        (r, errors) \<Rightarrow>
          let bookInstance = new_BookInstance oid r in
          if errors \<noteq> [] then
            (st, [bookinstance_form (sort_key title (books st)) bookInstance errors])
          else
            (case save bookinstance_id (bookinstances st) bookInstance of
               Inl e \<Rightarrow> (st, [Next e])
             | Inr xs \<Rightarrow>
                 (st\<lparr>bookinstances := xs\<rparr>, [Redirect (bookinstance_url bookInstance)])))"

definition bookinstance_delete_get :: "request \<Rightarrow> store \<Rightarrow> response" where
  "bookinstance_delete_get req st =
     (let bookInstance = findById bookinstance_id (bookinstances st) (params_id req)
      in (st, (if bookInstance = None then [Redirect ''/catalog/bookinstances''] else [])
              @ [Render ''bookinstance_delete''
                   [(''bookinstance'',
                     nullable (\<lambda>c. BookInstancePopulatedV c (snd (populate_bookinstance st c)))
                       bookInstance)]]))"

definition bookinstance_delete_post :: "request \<Rightarrow> store \<Rightarrow> response" where
  "bookinstance_delete_post req st =
     (st\<lparr>bookinstances := findByIdAndDelete bookinstance_id (bookinstances st) (body_id req)\<rparr>,
      [Redirect ''/catalog/bookinstances''])"

definition bookinstance_update_post :: "validator_lib \<Rightarrow> request \<Rightarrow> store \<Rightarrow> response" where
  "bookinstance_update_post V req st =
     (case run_chains (bookinstance_chains V) req of
        (r, errors) \<Rightarrow>
          let bookInstance = new_BookInstance (params_id req) r in
          if errors \<noteq> [] then
            (st, [bookinstance_form (books st) bookInstance errors])
          else
            (case findByIdAndUpdate bookinstance_id set_BookInstance (bookinstances st)
                    (params_id req) bookInstance of
               (old, xs) \<Rightarrow>
                 (st\<lparr>bookinstances := xs\<rparr>, [Redirect (bookinstance_url bookInstance)])))"

section \<open>Notions used in the statements\<close>

text \<open>The value of a text field after \<open>trim\<close> and \<open>escape\<close>.\<close>

abbreviation clean :: "string option option \<Rightarrow> string" where
  "clean v \<equiv> escape (trim (toString v))"

text \<open>The date a document gets from a submitted optional date field.\<close>

definition date_value :: "validator_lib \<Rightarrow> string option option \<Rightarrow> date option option" where
  "date_value V v =
     (if falsy v then date_field v else date_field (Some (toDate V (toString v))))"

text \<open>A form field is missing when it is absent, empty or only white space.\<close>

definition missing :: "request \<Rightarrow> string \<Rightarrow> bool" where
  "missing req f = (trim (toString (body req f)) = [])"

section \<open>A small library\<close>

definition austen :: Author where
  "austen = \<lparr>author_id = ''a1'', first_name = ''Jane'', family_name = ''Austen'',
              date_of_birth = Some (Some ''1775-12-16''),
              date_of_death = Some (Some ''1817-07-18'')\<rparr>"

definition borges :: Author where
  "borges = \<lparr>author_id = ''a2'', first_name = ''Jorge'', family_name = ''Borges'',
              date_of_birth = None, date_of_death = None\<rparr>"

definition carroll :: Author where
  "carroll = \<lparr>author_id = ''a3'', first_name = ''Lewis'', family_name = ''Carroll'',
               date_of_birth = None, date_of_death = None\<rparr>"

definition fiction :: Genre where
  "fiction = \<lparr>genre_id = ''g1'', name = ''Fiction''\<rparr>"

definition essay :: Genre where
  "essay = \<lparr>genre_id = ''g2'', name = ''Essay''\<rparr>"

definition emma :: Book where
  "emma = \<lparr>book_id = ''b1'', title = ''Emma'', author = Some ''a1'', summary = ''A novel'',
            isbn = ''9780141439587'', genre = [''g1'']\<rparr>"

definition ficciones :: Book where
  "ficciones = \<lparr>book_id = ''b2'', title = ''Ficciones'', author = Some ''a2'',
                 summary = ''Stories'',
                 isbn = ''9780802130303'', genre = [''g1'']\<rparr>"

definition persuasion :: Book where
  "persuasion = \<lparr>book_id = ''b3'', title = ''Persuasion'', author = Some ''a1'',
                  summary = ''A novel'',
                  isbn = ''9780141439686'', genre = []\<rparr>"

definition copy1 :: BookInstance where
  "copy1 = \<lparr>bookinstance_id = ''c1'', book = Some ''b1'', imprint = ''Penguin'',
             status = ''Available'', due_back = None\<rparr>"

definition copy2 :: BookInstance where
  "copy2 = \<lparr>bookinstance_id = ''c2'', book = Some ''b2'', imprint = ''Vintage'',
             status = ''Loaned'', due_back = Some (Some ''2025-01-01'')\<rparr>"

definition library :: store where
  "library =
     \<lparr>authors = [borges, carroll, austen], genres = [fiction, essay],
      books = [persuasion, ficciones, emma], bookinstances = [copy2, copy1]\<rparr>"

text \<open>A request with an empty form, and one with form fields.\<close>

definition request_for :: "ident \<Rightarrow> ident \<Rightarrow> request" where
  "request_for p b = \<lparr>params_id = p, body_id = b, body = Map.empty, body_genre = Undefined\<rparr>"

definition form :: "ident \<Rightarrow> (string \<times> string) list \<Rightarrow> genre_field \<Rightarrow> request" where
  "form p kvs g =
     \<lparr>params_id = p, body_id = p, body = (\<lambda>k. map_option Some (map_of kvs k)), body_genre = g\<rparr>"

text \<open>A stand-in for the date functions: a date is a string of ten characters.\<close>

definition ten_chars :: validator_lib where
  "ten_chars =
     \<lparr>isISO8601 = (\<lambda>s. length s = 10),
      toDate = (\<lambda>s. if length s = 10 then Some s else None)\<rparr>"

section \<open>What the validation chains compute\<close>

lemma run_chain_required:
  "run_chain (required p n m) (r, errs) =
     (r\<lparr>body := (body r)(p \<mapsto> Some (clean (body r p)))\<rparr>,
      errs @ (if isLength n (trim (toString (body r p))) then [] else [(p, m)]))"
  by (simp add: required_def toString_def)

lemma run_chain_optional_date:
  "run_chain (optional_date V p m) (r, errs) =
     (r\<lparr>body := (body r)(p := if falsy (body r p) then body r p
                                 else Some (toDate V (toString (body r p))))\<rparr>,
      errs @ (if falsy (body r p) \<or> isISO8601 V (toString (body r p)) then [] else [(p, m)]))"
  by (simp add: optional_date_def)

lemma run_chain_name:
  "run_chain (Chain p False
       [Sanitizer (\<lambda>s. Some (trim s)), Validator ok m,
        Sanitizer (\<lambda>s. Some (escape s)), Validator ok' m']) (r, errs) =
     (r\<lparr>body := (body r)(p \<mapsto> Some (clean (body r p)))\<rparr>,
      errs @ (if ok (trim (toString (body r p))) then [] else [(p, m)])
           @ (if ok' (clean (body r p)) then [] else [(p, m')]))"
  by (simp add: toString_def)

lemma run_chain_escape:
  "run_chain (Chain p False [Sanitizer (\<lambda>s. Some (escape s))]) (r, errs) =
     (r\<lparr>body := (body r)(p \<mapsto> Some (escape (toString (body r p))))\<rparr>, errs)"
  by simp

lemmas chain_results =
  run_chain_required run_chain_optional_date run_chain_name run_chain_escape

lemma author_errors:
  "snd (run_chains (author_chains V) req) =
     (if isLength 1 (trim (toString (body req ''first_name''))) then []
      else [(''first_name'', FirstNameRequired)])
     @ (if isAlphanumeric (clean (body req ''first_name'')) then []
        else [(''first_name'', FirstNameAlphanumeric)])
     @ (if isLength 1 (trim (toString (body req ''family_name''))) then []
        else [(''family_name'', FamilyNameRequired)])
     @ (if isAlphanumeric (clean (body req ''family_name'')) then []
        else [(''family_name'', FamilyNameAlphanumeric)])
     @ (if falsy (body req ''date_of_birth'') \<or> isISO8601 V (toString (body req ''date_of_birth''))
        then [] else [(''date_of_birth'', DateOfBirthInvalid)])
     @ (if falsy (body req ''date_of_death'') \<or> isISO8601 V (toString (body req ''date_of_death''))
        then [] else [(''date_of_death'', DateOfDeathInvalid)])"
  by (simp add: run_chains_def author_chains_def chain_results del: run_chain.simps)


lemma genre_errors:
  "snd (run_chains genre_chains req) =
     (if isLength 3 (trim (toString (body req ''name''))) then [] else [(''name'', GenreNameMin3)])"
  by (simp add: run_chains_def genre_chains_def chain_results del: run_chain.simps)



lemma body_genre_to_array: "body_genre (genre_to_array req) = Array (genre_array (body_genre req))"
  by (simp add: genre_to_array_def genre_array_def split: genre_field.splits)

lemma body_genre_to_array_body: "body (genre_to_array req) = body req"
  by (simp add: genre_to_array_def split: genre_field.splits)

lemma book_errors:
  "snd (book_validate req) =
     (if isLength 1 (trim (toString (body req ''title''))) then [] else [(''title'', TitleRequired)])
     @ (if isLength 1 (trim (toString (body req ''author''))) then [] else [(''author'', AuthorRequired)])
     @ (if isLength 1 (trim (toString (body req ''summary''))) then [] else [(''summary'', SummaryRequired)])
     @ (if isLength 1 (trim (toString (body req ''isbn''))) then [] else [(''isbn'', IsbnRequired)])"
  by (simp add: book_validate_def run_chains_def book_chains_def chain_results
      body_genre_to_array_body del: run_chain.simps)

lemma book_validate_genre:
  "body_genre (fst (book_validate req)) = Array (map escape (genre_array (body_genre req)))"
  by (simp add: book_validate_def run_chains_def book_chains_def chain_results
      body_genre_to_array escape_genre_def del: run_chain.simps)

lemma book_document:
  "new_Book i (fst (book_validate req)) =
     \<lparr>book_id = i,
      title = clean (body req ''title''),
      author = castObjectId (clean (body req ''author'')),
      summary = clean (body req ''summary''),
      isbn = clean (body req ''isbn''),
      genre = castObjectIds (map escape (genre_array (body_genre req)))\<rparr>"
  by (simp add: book_validate_def run_chains_def book_chains_def chain_results
      body_genre_to_array_body body_genre_to_array new_Book_def toString_def escape_genre_def
      genre_array_def del: run_chain.simps)

lemma bookinstance_errors:
  "snd (run_chains (bookinstance_chains V) req) =
     (if isLength 1 (trim (toString (body req ''book''))) then [] else [(''book'', BookRequired)])
     @ (if isLength 1 (trim (toString (body req ''imprint''))) then []
        else [(''imprint'', ImprintRequired)])
     @ (if falsy (body req ''due_back'') \<or> isISO8601 V (toString (body req ''due_back''))
        then [] else [(''due_back'', DueBackInvalid)])"
  by (simp add: run_chains_def bookinstance_chains_def chain_results del: run_chain.simps)

lemma bookinstance_document:
  "new_BookInstance i (fst (run_chains (bookinstance_chains V) req)) =
     \<lparr>bookinstance_id = i,
      book = castObjectId (clean (body req ''book'')),
      imprint = clean (body req ''imprint''),
      status = escape (toString (body req ''status'')),
      due_back = date_value V (body req ''due_back'')\<rparr>"
  by (simp add: run_chains_def bookinstance_chains_def chain_results
      new_BookInstance_def date_value_def toString_def del: run_chain.simps)

section \<open>Facts about the store operations\<close>

lemma update_first_absent:
  "findById ident xs i = None \<Longrightarrow> update_first ident setp xs i d = xs"
  by (induction xs) (auto simp: findById_def split: if_splits)

lemma findById_update_first:
  "(\<And>x. ident (setp d x) = ident x) \<Longrightarrow>
   findById ident (update_first ident setp xs i d) j =
     (if j = i then map_option (setp d) (findById ident xs i) else findById ident xs j)"
  by (induction xs) (auto simp: findById_def)

lemma findById_ident: "findById ident xs i = Some x \<Longrightarrow> ident x = i"
  by (auto simp: findById_def find_Some_iff)

lemma escape_ident: "isIdent s \<Longrightarrow> escape s = s"
proof -
  have n: "\<not> isAlnumChar CHR ''&''" "\<not> isAlnumChar (CHR 0x22)" "\<not> isAlnumChar (CHR 0x27)"
    "\<not> isAlnumChar CHR ''<''" "\<not> isAlnumChar CHR ''>''" "\<not> isAlnumChar CHR ''/''"
    "\<not> isAlnumChar (CHR 0x5C)" "\<not> isAlnumChar (CHR 0x60)"
    by (simp_all add: isAlnumChar_def)
  have c: "isAlnumChar c \<Longrightarrow> escape_char c = [c]" for c
    using n by (auto simp: escape_char_def)
  have "list_all isAlnumChar s \<Longrightarrow> escape s = s"
    by (induction s) (simp_all add: escape_def c)
  then show "isIdent s \<Longrightarrow> escape s = s"
    by (simp add: isIdent_def isAlphanumeric_def)
qed

lemma castObjectIds_idents: "list_all isIdent xs \<Longrightarrow> castObjectIds (map escape xs) = xs"
proof -
  assume a: "list_all isIdent xs"
  then have "map escape xs = xs"
    by (induction xs) (simp_all add: escape_ident)
  with a show ?thesis by (simp add: castObjectIds_def)
qed

lemmas library_data =
  library_def austen_def borges_def carroll_def fiction_def essay_def emma_def ficciones_def
  persuasion_def copy1_def copy2_def request_for_def

lemmas text_functions =
  trim_def isSpace_def escape_def escape_char_def toString_def isLength_def toLower_def

lemmas form_values =
  form_def text_functions falsy_def date_value_def date_field_def ten_chars_def
  isAlphanumeric_def isAlnumChar_def genre_array_def isIdent_def castObjectId_def
  castObjectIds_def

section \<open>Deleting\<close>

text \<open>
  C1. A delete-POST for an author or a genre that at least one book refers to deletes
  nothing (the store is unchanged) and renders the delete-confirmation view again, with
  the record and the books that refer to it; it does not redirect.
\<close>

theorem delete_post_refused_while_referenced:
  "(books_by_author st (params_id req) \<noteq> [] \<longrightarrow>
      author_delete_post req st =
        (st, [Render ''author_delete''
                [(''author'', nullable AuthorV (findById author_id (authors st) (params_id req))),
                 (''author_books'',
                  TitleSummaryV (title_summary (books_by_author st (params_id req))))]]))
   \<and> (books_in_genre st (params_id req') \<noteq> [] \<longrightarrow>
      genre_delete_post req' st =
        (st, [Render ''genre_delete''
                [(''genre'', nullable GenreV (findById genre_id (genres st) (params_id req'))),
                 (''genre_books'',
                  TitleSummaryV (title_summary (books_in_genre st (params_id req'))))]]))"
  by (simp add: author_delete_post_def genre_delete_post_def title_summary_def)

theorem delete_post_refused_while_referenced_witness:
  "books_by_author library ''a1'' \<noteq> [] \<and> books_in_genre library ''g1'' \<noteq> []
   \<and> author_delete_post (request_for ''a1'' ''a1'') library =
       (library, [Render ''author_delete''
                    [(''author'', AuthorV austen),
                     (''author_books'',
                      TitleSummaryV [(''b3'', ''Persuasion'', ''A novel''), (''b1'', ''Emma'', ''A novel'')])]])
   \<and> genre_delete_post (request_for ''g1'' ''g1'') library =
       (library, [Render ''genre_delete''
                    [(''genre'', GenreV fiction),
                     (''genre_books'',
                      TitleSummaryV [(''b2'', ''Ficciones'', ''Stories''), (''b1'', ''Emma'', ''A novel'')])]])"
proof -
  have a: "books_by_author library ''a1'' \<noteq> []"
    by (simp add: books_by_author_def library_data)
  have g: "books_in_genre library ''g1'' \<noteq> []"
    by (simp add: books_in_genre_def library_data)
  from delete_post_refused_while_referenced
         [of library "request_for ''a1'' ''a1''" "request_for ''g1'' ''g1''"] a g
  show ?thesis
    by (simp add: books_by_author_def books_in_genre_def title_summary_def findById_def
        nullable_def library_data)
qed

text \<open>
  C2, as stated, says that a delete-POST for a book deletes it and redirects to the book
  list even when copies refer to it. In the library, the book \<open>b1\<close> has the copy \<open>c1\<close>:
  the delete-POST leaves the book in the store and renders the confirmation view.
\<close>

theorem book_delete_post_kept_counterexample:
  "instances_of_book library ''b1'' = [copy1]
   \<and> book_delete_post (request_for ''b1'' ''b1'') library =
       (library, [Render ''book_delete''
                    [(''book'', BookPopulatedV emma (Some austen) [fiction]),
                     (''book_instances'', BookInstancesV [copy1])]])
   \<and> findById book_id (books (fst (book_delete_post (request_for ''b1'' ''b1'') library))) ''b1''
       = Some emma
   \<and> snd (book_delete_post (request_for ''b1'' ''b1'') library) \<noteq> [Redirect ''/catalog/books'']"
  by (simp add: book_delete_post_def instances_of_book_def populate_book_def findById_def
      nullable_def List.map_filter_def Let_def library_data)

text \<open>
  C2, amended. A delete-POST for a book checks the copies that refer to the book of the
  URL. When there is at least one, no book is deleted and, the book being in the store,
  the confirmation view is rendered with the book and those copies. When there is none,
  the book named in the body is deleted and, the book of the URL being in the store, the
  response is the redirect to the book list.
\<close>

theorem book_delete_post_checks_instances:
  "(instances_of_book st (params_id req) \<noteq> [] \<longrightarrow>
      fst (book_delete_post req st) = st
      \<and> (findById book_id (books st) (params_id req) = Some b \<longrightarrow>
           snd (book_delete_post req st) =
             [Render ''book_delete''
                [(''book'', populate_book st b),
                 (''book_instances'', BookInstancesV (instances_of_book st (params_id req)))]]))
   \<and> (instances_of_book st (params_id req) = [] \<longrightarrow>
      fst (book_delete_post req st) =
        st\<lparr>books := findByIdAndDelete book_id (books st) (body_id req)\<rparr>
      \<and> (findById book_id (books st) (params_id req) = Some b \<longrightarrow>
           snd (book_delete_post req st) = [Redirect ''/catalog/books'']))"
  by (simp add: book_delete_post_def nullable_def Let_def)

theorem book_delete_post_checks_instances_witness:
  "instances_of_book library ''b1'' \<noteq> []
   \<and> findById book_id (books library) ''b1'' = Some emma
   \<and> book_delete_post (request_for ''b1'' ''b1'') library =
       (library, [Render ''book_delete''
                    [(''book'', BookPopulatedV emma (Some austen) [fiction]),
                     (''book_instances'', BookInstancesV [copy1])]])
   \<and> instances_of_book library ''b3'' = []
   \<and> findById book_id (books library) ''b3'' = Some persuasion
   \<and> book_delete_post (request_for ''b3'' ''b3'') library =
       (library\<lparr>books := [ficciones, emma]\<rparr>, [Redirect ''/catalog/books''])"
proof -
  have i1: "instances_of_book library ''b1'' \<noteq> []"
    and i3: "instances_of_book library ''b3'' = []"
    by (simp_all add: instances_of_book_def library_data)
  have f1: "findById book_id (books library) ''b1'' = Some emma"
    and f3: "findById book_id (books library) ''b3'' = Some persuasion"
    by (simp_all add: findById_def library_data)
  from book_delete_post_checks_instances [of library "request_for ''b1'' ''b1''" emma] i1 f1
  have r1: "book_delete_post (request_for ''b1'' ''b1'') library =
       (library, [Render ''book_delete''
                    [(''book'', populate_book library emma),
                     (''book_instances'', BookInstancesV (instances_of_book library ''b1''))]])"
    by (simp add: prod_eq_iff request_for_def)
  from book_delete_post_checks_instances [of library "request_for ''b3'' ''b3''" persuasion] i3 f3
  have r3: "book_delete_post (request_for ''b3'' ''b3'') library =
       (library\<lparr>books := findByIdAndDelete book_id (books library) ''b3''\<rparr>,
        [Redirect ''/catalog/books''])"
    by (simp add: prod_eq_iff request_for_def)
  have p: "populate_book library emma = BookPopulatedV emma (Some austen) [fiction]"
    by (simp add: populate_book_def findById_def List.map_filter_def library_data)
  have c: "instances_of_book library ''b1'' = [copy1]"
    by (simp add: instances_of_book_def library_data)
  have d: "findByIdAndDelete book_id (books library) ''b3'' = [ficciones, emma]"
    by (simp add: library_data)
  show ?thesis
    using i1 i3 f1 f3 r1 r3 by (simp add: p c d)
qed

text \<open>
  C5 says that a delete-GET for an identifier with no record redirects to the list view
  and renders nothing. The four handlers call \<open>res.redirect\<close> with no \<open>return\<close> after it and go on
  to \<open>res.render\<close> with a \<open>null\<close> record: for the identifier \<open>zz\<close>, which names nothing in the
  library, each of them makes both calls.
\<close>

theorem delete_get_missing_record_redirects_and_renders:
  "findById author_id (authors library) ''zz'' = None
   \<and> author_delete_get (request_for ''zz'' ''zz'') library =
       (library, [Redirect ''/catalog/authors'',
                  Render ''author_delete''
                    [(''author'', Null), (''author_books'', TitleSummaryV [])]])
   \<and> findById genre_id (genres library) ''zz'' = None
   \<and> genre_delete_get (request_for ''zz'' ''zz'') library =
       (library, [Redirect ''/catalog/genres'',
                  Render ''genre_delete''
                    [(''genre'', Null), (''genre_books'', TitleSummaryV [])]])
   \<and> findById book_id (books library) ''zz'' = None
   \<and> book_delete_get (request_for ''zz'' ''zz'') library =
       (library, [Redirect ''/catalog/books'',
                  Render ''book_delete''
                    [(''book'', Null), (''book_instances'', BookInstancesV [])]])
   \<and> findById bookinstance_id (bookinstances library) ''zz'' = None
   \<and> bookinstance_delete_get (request_for ''zz'' ''zz'') library =
       (library, [Redirect ''/catalog/bookinstances'',
                  Render ''bookinstance_delete'' [(''bookinstance'', Null)]])"
  by (simp add: author_delete_get_def genre_delete_get_def book_delete_get_def
      bookinstance_delete_get_def findById_def nullable_def title_summary_def
      books_by_author_def books_in_genre_def instances_of_book_def library_data)

text \<open>
  C9. A delete-POST for an author, a genre or a book counts the dependent records of the
  identifier in the URL and deletes the record named by the identifier in the body: the
  store after the request is the store with the body's record deleted when the URL's
  identifier has no dependents, and the store as it was otherwise.
\<close>

theorem delete_post_checks_url_deletes_body:
  "fst (author_delete_post req st) =
     (if books_by_author st (params_id req) = []
      then st\<lparr>authors := findByIdAndDelete author_id (authors st) (body_id req)\<rparr> else st)
   \<and> fst (genre_delete_post req st) =
     (if books_in_genre st (params_id req) = []
      then st\<lparr>genres := findByIdAndDelete genre_id (genres st) (body_id req)\<rparr> else st)
   \<and> fst (book_delete_post req st) =
     (if instances_of_book st (params_id req) = []
      then st\<lparr>books := findByIdAndDelete book_id (books st) (body_id req)\<rparr> else st)"
  by (simp add: author_delete_post_def genre_delete_post_def book_delete_post_def
      title_summary_def Let_def)

text \<open>
  In the library, the author \<open>a3\<close> has no book and the author \<open>a1\<close> has two: a delete-POST
  at the URL of \<open>a3\<close> with \<open>a1\<close> in the body deletes \<open>a1\<close>. The same holds for genres and books.
\<close>

theorem delete_post_checks_url_deletes_body_witness:
  "books_by_author library ''a3'' = [] \<and> books_by_author library ''a1'' \<noteq> []
   \<and> fst (author_delete_post (request_for ''a3'' ''a1'') library) =
       library\<lparr>authors := [borges, carroll]\<rparr>
   \<and> books_in_genre library ''g2'' = [] \<and> books_in_genre library ''g1'' \<noteq> []
   \<and> fst (genre_delete_post (request_for ''g2'' ''g1'') library) = library\<lparr>genres := [essay]\<rparr>
   \<and> instances_of_book library ''b3'' = [] \<and> instances_of_book library ''b1'' \<noteq> []
   \<and> fst (book_delete_post (request_for ''b3'' ''b1'') library) =
       library\<lparr>books := [persuasion, ficciones]\<rparr>"
proof -
  have e: "books_by_author library ''a3'' = []" "books_in_genre library ''g2'' = []"
    "instances_of_book library ''b3'' = []"
    by (simp_all add: books_by_author_def books_in_genre_def instances_of_book_def library_data)
  have n: "books_by_author library ''a1'' \<noteq> []" "books_in_genre library ''g1'' \<noteq> []"
    "instances_of_book library ''b1'' \<noteq> []"
    by (simp_all add: books_by_author_def books_in_genre_def instances_of_book_def library_data)
  have d: "findByIdAndDelete author_id (authors library) ''a1'' = [borges, carroll]"
    "findByIdAndDelete genre_id (genres library) ''g1'' = [essay]"
    "findByIdAndDelete book_id (books library) ''b1'' = [persuasion, ficciones]"
    by (simp_all add: library_data)
  from delete_post_checks_url_deletes_body [of "request_for ''a3'' ''a1''" library]
    delete_post_checks_url_deletes_body [of "request_for ''g2'' ''g1''" library]
    delete_post_checks_url_deletes_body [of "request_for ''b3'' ''b1''" library]
  show ?thesis
    using e n d by (simp add: request_for_def)
qed

section \<open>Creating a genre\<close>




section \<open>List views\<close>

text \<open>
  C6, as stated, has the list of book instances sorted ascending by a sort field.
  \<open>bookinstance_list\<close> does not sort: the two copies of the library are rendered in the
  order of the store, which is ascending for none of the fields of a copy, nor for the
  title of its book.
\<close>

theorem bookinstance_list_unsorted_counterexample:
  "bookinstance_list library =
     (library, [Render ''bookinstance_list''
                  [(''bookinstance_list'',
                    BookInstancesPopulatedV [(copy2, Some ficciones), (copy1, Some emma)])]])
   \<and> \<not> sorted (map bookinstance_id [copy2, copy1])
   \<and> \<not> sorted (map book [copy2, copy1])
   \<and> \<not> sorted (map imprint [copy2, copy1])
   \<and> \<not> sorted (map status [copy2, copy1])
   \<and> \<not> sorted (map due_back [copy2, copy1])
   \<and> \<not> sorted (map title [ficciones, emma])"
  by (simp add: bookinstance_list_def populate_bookinstance_def findById_def library_data)

text \<open>
  C6, amended. The list views of authors, genres and books render all the records of
  the store, sorted ascending by family name, name and title; the list view of book
  instances renders all the records in the order of the store.
\<close>

theorem list_views_order:
  "(\<exists>xs. author_list st = (st, [Render ''author_list'' [(''author_list'', AuthorsV xs)]])
          \<and> sorted (map family_name xs) \<and> mset xs = mset (authors st))
   \<and> (\<exists>xs. genre_list st = (st, [Render ''genre_list'' [(''list_genres'', GenresV xs)]])
          \<and> sorted (map name xs) \<and> mset xs = mset (genres st))
   \<and> (\<exists>xs. book_list st =
              (st, [Render ''book_list'' [(''book_list'', TitleAuthorV (title_author st xs))]])
          \<and> sorted (map title xs) \<and> mset xs = mset (books st))
   \<and> bookinstance_list st =
       (st, [Render ''bookinstance_list''
               [(''bookinstance_list'',
                 BookInstancesPopulatedV
                   (map (populate_bookinstance st) (bookinstances st)))]])"
proof (intro conjI)
  show "\<exists>xs. author_list st = (st, [Render ''author_list'' [(''author_list'', AuthorsV xs)]])
          \<and> sorted (map family_name xs) \<and> mset xs = mset (authors st)"
    by (rule exI [of _ "sort_key family_name (authors st)"]) (simp add: author_list_def)
  show "\<exists>xs. genre_list st = (st, [Render ''genre_list'' [(''list_genres'', GenresV xs)]])
          \<and> sorted (map name xs) \<and> mset xs = mset (genres st)"
    by (rule exI [of _ "sort_key name (genres st)"]) (simp add: genre_list_def)
  show "\<exists>xs. book_list st =
              (st, [Render ''book_list'' [(''book_list'', TitleAuthorV (title_author st xs))]])
          \<and> sorted (map title xs) \<and> mset xs = mset (books st)"
    by (rule exI [of _ "sort_key title (books st)"]) (simp add: book_list_def)
  show "bookinstance_list st =
       (st, [Render ''bookinstance_list''
               [(''bookinstance_list'',
                 BookInstancesPopulatedV
                   (map (populate_bookinstance st) (bookinstances st)))]])"
    by (simp add: bookinstance_list_def)
qed

text \<open>The four list views of the library.\<close>

theorem list_views_order_witness:
  "author_list library =
     (library, [Render ''author_list'' [(''author_list'', AuthorsV [austen, borges, carroll])]])
   \<and> genre_list library =
     (library, [Render ''genre_list'' [(''list_genres'', GenresV [essay, fiction])]])
   \<and> book_list library =
     (library, [Render ''book_list''
                  [(''book_list'',
                    TitleAuthorV [(''b1'', ''Emma'', Some austen), (''b2'', ''Ficciones'', Some borges),
                                  (''b3'', ''Persuasion'', Some austen)])]])
   \<and> bookinstance_list library =
     (library, [Render ''bookinstance_list''
                  [(''bookinstance_list'',
                    BookInstancesPopulatedV [(copy2, Some ficciones), (copy1, Some emma)])]])"
proof -
  have "author_list library =
     (library, [Render ''author_list'' [(''author_list'', AuthorsV [austen, borges, carroll])]])"
    by (simp add: author_list_def library_data)
  moreover have "genre_list library =
     (library, [Render ''genre_list'' [(''list_genres'', GenresV [essay, fiction])]])"
    by (simp add: genre_list_def library_data)
  moreover have "book_list library =
     (library, [Render ''book_list''
                  [(''book_list'',
                    TitleAuthorV [(''b1'', ''Emma'', Some austen), (''b2'', ''Ficciones'', Some borges),
                                  (''b3'', ''Persuasion'', Some austen)])]])"
    by (simp add: book_list_def title_author_def findById_def library_data)
  moreover from list_views_order [of library]
  have "bookinstance_list library =
     (library, [Render ''bookinstance_list''
                  [(''bookinstance_list'',
                    BookInstancesPopulatedV [(copy2, Some ficciones), (copy1, Some emma)])]])"
    by (simp add: populate_bookinstance_def findById_def library_data)
  ultimately show ?thesis by simp
qed

section \<open>Submitting a form\<close>

lemma author_update_post_valid:
  "snd (run_chains (author_chains V) req) = [] \<Longrightarrow>
   author_update_post V req st =
     (st\<lparr>authors := update_first author_id set_Author (authors st) (params_id req)
                      (new_Author (params_id req) (fst (run_chains (author_chains V) req)))\<rparr>,
      [Redirect (''/catalog/author/'' @ params_id req)])"
  by (simp add: author_update_post_def case_prod_beta findByIdAndUpdate_def author_url_def
      new_Author_def)

lemma genre_update_post_valid:
  "snd (run_chains genre_chains req) = [] \<Longrightarrow>
   genre_update_post req st =
     (st\<lparr>genres := update_first genre_id set_Genre (genres st) (params_id req)
                     (new_Genre (params_id req) (fst (run_chains genre_chains req)))\<rparr>,
      [Redirect (''/catalog/genre/'' @ params_id req)])"
  by (simp add: genre_update_post_def case_prod_beta findByIdAndUpdate_def genre_url_def
      new_Genre_def)

lemma book_create_post_invalid:
  "snd (book_validate req) \<noteq> [] \<Longrightarrow>
   book_create_post oid req st =
     (st, [Render ''book_form''
             (book_form_context st (new_Book oid (fst (book_validate req)))
                (snd (book_validate req)))])"
  by (simp add: book_create_post_def case_prod_beta)

lemma book_create_post_valid:
  "snd (book_validate req) = [] \<Longrightarrow>
   book_create_post oid req st =
     (case save book_id (books st) (new_Book oid (fst (book_validate req))) of
        Inl e \<Rightarrow> (st, [Next e])
      | Inr xs \<Rightarrow> (st\<lparr>books := xs\<rparr>, [Redirect (''/catalog/book/'' @ oid)]))"
  by (simp add: book_create_post_def case_prod_beta book_url_def new_Book_def
      split: sum.splits)

lemma book_update_post_invalid:
  "snd (book_validate req) \<noteq> [] \<Longrightarrow>
   book_update_post req st =
     (st, [Render ''book_form''
             (book_form_context st (new_Book (params_id req) (fst (book_validate req)))
                (snd (book_validate req)))])"
  by (simp add: book_update_post_def case_prod_beta)

lemma book_update_post_valid:
  "snd (book_validate req) = [] \<Longrightarrow>
   book_update_post req st =
     (st\<lparr>books := update_first book_id set_Book (books st) (params_id req)
                    (new_Book (params_id req) (fst (book_validate req)))\<rparr>,
      [case findById book_id (books st) (params_id req) of
         None \<Rightarrow> Next TypeError
       | Some b \<Rightarrow> Redirect (book_url b)])"
  by (simp add: book_update_post_def case_prod_beta findByIdAndUpdate_def)

lemma bookinstance_create_post_invalid:
  "snd (run_chains (bookinstance_chains V) req) \<noteq> [] \<Longrightarrow>
   bookinstance_create_post V oid req st =
     (st, [bookinstance_form (sort_key title (books st))
             (new_BookInstance oid (fst (run_chains (bookinstance_chains V) req)))
             (snd (run_chains (bookinstance_chains V) req))])"
  by (simp add: bookinstance_create_post_def case_prod_beta)

lemma bookinstance_update_post_invalid:
  "snd (run_chains (bookinstance_chains V) req) \<noteq> [] \<Longrightarrow>
   bookinstance_update_post V req st =
     (st, [bookinstance_form (books st)
             (new_BookInstance (params_id req) (fst (run_chains (bookinstance_chains V) req)))
             (snd (run_chains (bookinstance_chains V) req))])"
  by (simp add: bookinstance_update_post_def case_prod_beta)

lemma bookinstance_update_post_valid:
  "snd (run_chains (bookinstance_chains V) req) = [] \<Longrightarrow>
   bookinstance_update_post V req st =
     (st\<lparr>bookinstances :=
           update_first bookinstance_id set_BookInstance (bookinstances st) (params_id req)
            (new_BookInstance (params_id req) (fst (run_chains (bookinstance_chains V) req)))\<rparr>,
      [Redirect (''/catalog/bookinstance/'' @ params_id req)])"
  by (simp add: bookinstance_update_post_def case_prod_beta findByIdAndUpdate_def
      bookinstance_url_def new_BookInstance_def)



text \<open>
  C4 says that a create-POST or an update-POST with a missing required field renders the
  form again, with the submitted values and the message of the field. A copy posted
  without a book: the chain of \<open>book\<close> records its error, the document has no book, and
  both handlers end in \<open>next\<close> with the \<open>TypeError\<close> of \<open>bookInstance.book._id\<close>. The store is
  unchanged, and no form is rendered.
\<close>

theorem bookinstance_form_without_book_throws:
  "missing (form ''c1'' [(''imprint'', ''Penguin''), (''status'', ''Available'')] Undefined) ''book''
   \<and> snd (run_chains (bookinstance_chains ten_chars)
           (form ''c1'' [(''imprint'', ''Penguin''), (''status'', ''Available'')] Undefined)) =
       [(''book'', BookRequired)]
   \<and> bookinstance_create_post ten_chars ''c9''
        (form ''c1'' [(''imprint'', ''Penguin''), (''status'', ''Available'')] Undefined) library =
       (library, [Next TypeError])
   \<and> bookinstance_update_post ten_chars
        (form ''c1'' [(''imprint'', ''Penguin''), (''status'', ''Available'')] Undefined) library =
       (library, [Next TypeError])"
proof -
  let ?c = "form ''c1'' [(''imprint'', ''Penguin''), (''status'', ''Available'')] Undefined"
  have m: "missing ?c ''book''"
    by (simp add: missing_def form_values)
  have e: "snd (run_chains (bookinstance_chains ten_chars) ?c) = [(''book'', BookRequired)]"
    by (simp add: bookinstance_errors form_values)
  have b: "castObjectId (clean (body ?c ''book'')) = None"
    by (simp add: form_values)
  have "bookinstance_create_post ten_chars ''c9'' ?c library = (library, [Next TypeError])"
    by (simp add: bookinstance_create_post_invalid e bookinstance_form_def
        bookinstance_document b)
  moreover
  have "bookinstance_update_post ten_chars ?c library = (library, [Next TypeError])"
    by (simp add: bookinstance_update_post_invalid e bookinstance_form_def
        bookinstance_document b)
  ultimately show ?thesis using m e by simp
qed

text \<open>
  C10. A valid update-POST for an identifier that names no record: the book handler
  reads \<open>url\<close> of the \<open>null\<close> that \<open>findByIdAndUpdate\<close> returns and ends in \<open>next\<close> with a
  \<open>TypeError\<close>; the author, genre and book instance handlers redirect to the detail URL
  of the document they built. The store is unchanged in all four.
\<close>

theorem update_post_missing_record:
  "(snd (book_validate req) = [] \<and> findById book_id (books st) (params_id req) = None \<longrightarrow>
      book_update_post req st = (st, [Next TypeError]))
   \<and> (snd (run_chains (author_chains V) req) = []
        \<and> findById author_id (authors st) (params_id req) = None \<longrightarrow>
      author_update_post V req st = (st, [Redirect (''/catalog/author/'' @ params_id req)]))
   \<and> (snd (run_chains genre_chains req) = []
        \<and> findById genre_id (genres st) (params_id req) = None \<longrightarrow>
      genre_update_post req st = (st, [Redirect (''/catalog/genre/'' @ params_id req)]))
   \<and> (snd (run_chains (bookinstance_chains V) req) = []
        \<and> findById bookinstance_id (bookinstances st) (params_id req) = None \<longrightarrow>
      bookinstance_update_post V req st =
        (st, [Redirect (''/catalog/bookinstance/'' @ params_id req)]))"
  by (simp add: book_update_post_valid author_update_post_valid genre_update_post_valid
      bookinstance_update_post_valid update_first_absent)

text \<open>Valid forms posted to the identifier \<open>zz\<close>, which names nothing in the library.\<close>

theorem update_post_missing_record_witness:
  "snd (book_validate
          (form ''zz'' [(''title'', ''Emma''), (''author'', ''a1''), (''summary'', ''A novel''),
                        (''isbn'', ''9780141439587'')] Undefined)) = []
   \<and> findById book_id (books library) ''zz'' = None
   \<and> book_update_post
        (form ''zz'' [(''title'', ''Emma''), (''author'', ''a1''), (''summary'', ''A novel''),
                      (''isbn'', ''9780141439587'')] Undefined) library =
       (library, [Next TypeError])
   \<and> snd (run_chains (author_chains ten_chars)
          (form ''zz'' [(''first_name'', ''Jane''), (''family_name'', ''Austen'')] Undefined)) = []
   \<and> findById author_id (authors library) ''zz'' = None
   \<and> author_update_post ten_chars
        (form ''zz'' [(''first_name'', ''Jane''), (''family_name'', ''Austen'')] Undefined) library =
       (library, [Redirect ''/catalog/author/zz''])
   \<and> snd (run_chains genre_chains (form ''zz'' [(''name'', ''Poetry'')] Undefined)) = []
   \<and> findById genre_id (genres library) ''zz'' = None
   \<and> genre_update_post (form ''zz'' [(''name'', ''Poetry'')] Undefined) library =
       (library, [Redirect ''/catalog/genre/zz''])
   \<and> snd (run_chains (bookinstance_chains ten_chars)
          (form ''zz'' [(''book'', ''b1''), (''imprint'', ''Penguin''), (''status'', ''Loaned'')]
             Undefined)) = []
   \<and> findById bookinstance_id (bookinstances library) ''zz'' = None
   \<and> bookinstance_update_post ten_chars
        (form ''zz'' [(''book'', ''b1''), (''imprint'', ''Penguin''), (''status'', ''Loaned'')]
           Undefined) library =
       (library, [Redirect ''/catalog/bookinstance/zz''])"
proof -
  let ?b = "form ''zz'' [(''title'', ''Emma''), (''author'', ''a1''), (''summary'', ''A novel''),
                        (''isbn'', ''9780141439587'')] Undefined"
  let ?a = "form ''zz'' [(''first_name'', ''Jane''), (''family_name'', ''Austen'')] Undefined"
  let ?g = "form ''zz'' [(''name'', ''Poetry'')] Undefined"
  let ?c = "form ''zz'' [(''book'', ''b1''), (''imprint'', ''Penguin''), (''status'', ''Loaned'')]
              Undefined"
  have vb: "snd (book_validate ?b) = []"
    by (simp add: book_errors form_values)
  have va: "snd (run_chains (author_chains ten_chars) ?a) = []"
    by (simp add: author_errors form_values)
  have vg: "snd (run_chains genre_chains ?g) = []"
    by (simp add: genre_errors form_values)
  have vc: "snd (run_chains (bookinstance_chains ten_chars) ?c) = []"
    by (simp add: bookinstance_errors form_values)
  have n: "findById book_id (books library) ''zz'' = None"
    "findById author_id (authors library) ''zz'' = None"
    "findById genre_id (genres library) ''zz'' = None"
    "findById bookinstance_id (bookinstances library) ''zz'' = None"
    by (simp_all add: findById_def library_data)
  have p: "params_id ?b = ''zz''" "params_id ?a = ''zz''" "params_id ?g = ''zz''"
    "params_id ?c = ''zz''"
    by (simp_all add: form_def)
  from update_post_missing_record [of ?b library ten_chars] vb n p
  have b: "book_update_post ?b library = (library, [Next TypeError])" by simp
  from update_post_missing_record [of ?a library ten_chars] va n p
  have a: "author_update_post ten_chars ?a library = (library, [Redirect ''/catalog/author/zz''])"
    by simp
  from update_post_missing_record [of ?g library ten_chars] vg n p
  have g: "genre_update_post ?g library = (library, [Redirect ''/catalog/genre/zz''])"
    by simp
  from update_post_missing_record [of ?c library ten_chars] vc n p
  have c: "bookinstance_update_post ten_chars ?c library =
      (library, [Redirect ''/catalog/bookinstance/zz''])"
    by simp
  from vb va vg vc n a b g c show ?thesis by blast
qed

section \<open>The genre field of the book forms\<close>

text \<open>
  C7. The first middleware of the book create-POST and update-POST turns the genre
  field into the array \<open>g\<close>: nothing gives the empty array, one value gives the array of
  that value, an array is unchanged. After the validation chains the field is that
  array with its elements escaped. When the elements are identifiers, both handlers
  work with a book document whose genres are \<open>g\<close>: it is the document of the form they
  render when validation fails, the document that create saves, and the genres of the
  stored book after update.
\<close>

theorem genre_field_normalised:
  assumes g: "g = (case body_genre req of Undefined \<Rightarrow> [] | Scalar s \<Rightarrow> [s] | Array xs \<Rightarrow> xs)"
  shows
    "body_genre (genre_to_array req) = Array g
     \<and> body_genre (fst (book_validate req)) = Array (map escape g)
     \<and> (list_all isIdent g \<and> snd (book_validate req) \<noteq> [] \<longrightarrow>
          book_create_post oid req st =
            (st, [Render ''book_form''
                    (book_form_context st
                       \<lparr>book_id = oid,
                        title = clean (body req ''title''),
                        author = castObjectId (clean (body req ''author'')),
                        summary = clean (body req ''summary''),
                        isbn = clean (body req ''isbn''),
                        genre = g\<rparr>
                       (snd (book_validate req)))])
          \<and> book_update_post req st =
            (st, [Render ''book_form''
                    (book_form_context st
                       \<lparr>book_id = params_id req,
                        title = clean (body req ''title''),
                        author = castObjectId (clean (body req ''author'')),
                        summary = clean (body req ''summary''),
                        isbn = clean (body req ''isbn''),
                        genre = g\<rparr>
                       (snd (book_validate req)))]))
     \<and> (list_all isIdent g \<and> snd (book_validate req) = []
          \<and> isIdent (clean (body req ''author''))
          \<and> findById book_id (books st) oid = None \<longrightarrow>
          book_create_post oid req st =
            (st\<lparr>books := books st @
                   [\<lparr>book_id = oid,
                     title = clean (body req ''title''),
                     author = Some (clean (body req ''author'')),
                     summary = clean (body req ''summary''),
                     isbn = clean (body req ''isbn''),
                     genre = g\<rparr>]\<rparr>,
             [Redirect (''/catalog/book/'' @ oid)]))
     \<and> (list_all isIdent g \<and> snd (book_validate req) = []
          \<and> findById book_id (books st) (params_id req) = Some old \<longrightarrow>
          map_option genre
            (findById book_id (books (fst (book_update_post req st))) (params_id req)) = Some g
          \<and> snd (book_update_post req st) = [Redirect (''/catalog/book/'' @ params_id req)])"
proof -
  have ga: "genre_array (body_genre req) = g"
    by (simp add: g genre_array_def)
  have c1: "body_genre (genre_to_array req) = Array g"
    by (simp add: body_genre_to_array ga)
  have c2: "body_genre (fst (book_validate req)) = Array (map escape g)"
    by (simp add: book_validate_genre ga)
  have doc: "new_Book i (fst (book_validate req)) =
     \<lparr>book_id = i,
      title = clean (body req ''title''),
      author = castObjectId (clean (body req ''author'')),
      summary = clean (body req ''summary''),
      isbn = clean (body req ''isbn''),
      genre = g\<rparr>" if "list_all isIdent g" for i
    using that by (simp add: book_document ga castObjectIds_idents)
  have c3: "book_create_post oid req st =
            (st, [Render ''book_form''
                    (book_form_context st
                       \<lparr>book_id = oid,
                        title = clean (body req ''title''),
                        author = castObjectId (clean (body req ''author'')),
                        summary = clean (body req ''summary''),
                        isbn = clean (body req ''isbn''),
                        genre = g\<rparr>
                       (snd (book_validate req)))])
          \<and> book_update_post req st =
            (st, [Render ''book_form''
                    (book_form_context st
                       \<lparr>book_id = params_id req,
                        title = clean (body req ''title''),
                        author = castObjectId (clean (body req ''author'')),
                        summary = clean (body req ''summary''),
                        isbn = clean (body req ''isbn''),
                        genre = g\<rparr>
                       (snd (book_validate req)))])"
    if "list_all isIdent g" "snd (book_validate req) \<noteq> []"
    using that by (simp add: book_create_post_invalid book_update_post_invalid doc)
  have c4: "book_create_post oid req st =
            (st\<lparr>books := books st @
                   [\<lparr>book_id = oid,
                     title = clean (body req ''title''),
                     author = Some (clean (body req ''author'')),
                     summary = clean (body req ''summary''),
                     isbn = clean (body req ''isbn''),
                     genre = g\<rparr>]\<rparr>,
             [Redirect (''/catalog/book/'' @ oid)])"
    if "list_all isIdent g" "snd (book_validate req) = []"
      "isIdent (clean (body req ''author''))" "findById book_id (books st) oid = None"
    using that by (simp add: book_create_post_valid doc save_def castObjectId_def)
  have c5: "map_option genre
            (findById book_id (books (fst (book_update_post req st))) (params_id req)) = Some g
          \<and> snd (book_update_post req st) = [Redirect (''/catalog/book/'' @ params_id req)]"
    if "list_all isIdent g" "snd (book_validate req) = []"
      "findById book_id (books st) (params_id req) = Some old"
    using that findById_ident [OF that(3)]
    by (simp add: book_update_post_valid doc findById_update_first set_Book_def book_url_def)
  from c1 c2 c3 c4 c5 show ?thesis by blast
qed

text \<open>
  The three shapes of the genre field and a value that needs escaping; an empty form
  with one genre posted to create and with none posted to update; a valid form with one
  genre posted to create and to update.
\<close>

theorem genre_field_normalised_witness:
  "body_genre (genre_to_array (form ''b1'' [] Undefined)) = Array []
   \<and> body_genre (genre_to_array (form ''b1'' [] (Scalar ''g1''))) = Array [''g1'']
   \<and> body_genre (genre_to_array (form ''b1'' [] (Array [''g1'', ''g2'']))) = Array [''g1'', ''g2'']
   \<and> body_genre (fst (book_validate (form ''b1'' [] (Scalar ''<g>'')))) = Array [''&lt;g&gt;'']
   \<and> snd (book_validate (form ''b1'' [] (Scalar ''g1''))) \<noteq> []
   \<and> book_create_post ''b9'' (form ''b1'' [] (Scalar ''g1'')) library =
       (library, [Render ''book_form''
          [(''authors'', AuthorsV [austen, borges, carroll]),
           (''genres'', CheckedGenresV [(essay, False), (fiction, True)]),
           (''book'',
            BookV \<lparr>book_id = ''b9'', title = [], author = None, summary = [], isbn = [],
                   genre = [''g1'']\<rparr>),
           (''errors'',
            ErrorsV [(''title'', TitleRequired), (''author'', AuthorRequired),
                     (''summary'', SummaryRequired), (''isbn'', IsbnRequired)])]])
   \<and> book_update_post (form ''b1'' [] Undefined) library =
       (library, [Render ''book_form''
          [(''authors'', AuthorsV [austen, borges, carroll]),
           (''genres'', CheckedGenresV [(essay, False), (fiction, False)]),
           (''book'',
            BookV \<lparr>book_id = ''b1'', title = [], author = None, summary = [], isbn = [],
                   genre = []\<rparr>),
           (''errors'',
            ErrorsV [(''title'', TitleRequired), (''author'', AuthorRequired),
                     (''summary'', SummaryRequired), (''isbn'', IsbnRequired)])]])
   \<and> snd (book_validate
          (form ''b3'' [(''title'', ''Persuasion''), (''author'', ''a1''), (''summary'', ''A novel''),
                        (''isbn'', ''9780141439686'')] (Scalar ''g2''))) = []
   \<and> findById book_id (books library) ''b9'' = None
   \<and> book_create_post ''b9''
        (form ''b3'' [(''title'', ''Persuasion''), (''author'', ''a1''), (''summary'', ''A novel''),
                      (''isbn'', ''9780141439686'')] (Scalar ''g2'')) library =
       (library\<lparr>books := [persuasion, ficciones, emma,
                           \<lparr>book_id = ''b9'', title = ''Persuasion'', author = Some ''a1'',
                            summary = ''A novel'', isbn = ''9780141439686'',
                            genre = [''g2'']\<rparr>]\<rparr>,
        [Redirect ''/catalog/book/b9''])
   \<and> findById book_id (books library) ''b3'' = Some persuasion
   \<and> map_option genre
        (findById book_id
           (books (fst (book_update_post
              (form ''b3'' [(''title'', ''Persuasion''), (''author'', ''a1''),
                            (''summary'', ''A novel''), (''isbn'', ''9780141439686'')]
                 (Scalar ''g2'')) library))) ''b3'') = Some [''g2'']
   \<and> snd (book_update_post
          (form ''b3'' [(''title'', ''Persuasion''), (''author'', ''a1''), (''summary'', ''A novel''),
                        (''isbn'', ''9780141439686'')] (Scalar ''g2'')) library) =
       [Redirect ''/catalog/book/b3'']"
proof -
  let ?s = "form ''b1'' [] (Scalar ''g1'')"
  let ?u = "form ''b1'' [] Undefined"
  let ?v = "form ''b3'' [(''title'', ''Persuasion''), (''author'', ''a1''), (''summary'', ''A novel''),
                        (''isbn'', ''9780141439686'')] (Scalar ''g2'')"
  have gs: "[''g1''] = (case body_genre ?s of Undefined \<Rightarrow> [] | Scalar s \<Rightarrow> [s] | Array xs \<Rightarrow> xs)"
    and gu: "[] = (case body_genre ?u of Undefined \<Rightarrow> [] | Scalar s \<Rightarrow> [s] | Array xs \<Rightarrow> xs)"
    and gv: "[''g2''] = (case body_genre ?v of Undefined \<Rightarrow> [] | Scalar s \<Rightarrow> [s] | Array xs \<Rightarrow> xs)"
    and ga: "[''g1'', ''g2''] =
      (case body_genre (form ''b1'' [] (Array [''g1'', ''g2''])) of
         Undefined \<Rightarrow> [] | Scalar s \<Rightarrow> [s] | Array xs \<Rightarrow> xs)"
    and ge: "[''<g>''] =
      (case body_genre (form ''b1'' [] (Scalar ''<g>'')) of
         Undefined \<Rightarrow> [] | Scalar s \<Rightarrow> [s] | Array xs \<Rightarrow> xs)"
    by (simp_all add: form_def)
  have ids: "list_all isIdent [''g1'']" "list_all isIdent []" "list_all isIdent [''g2'']"
    "isIdent ''a1''"
    by (simp_all add: isIdent_def isAlphanumeric_def isAlnumChar_def)
  have es: "snd (book_validate ?s) =
      [(''title'', TitleRequired), (''author'', AuthorRequired),
       (''summary'', SummaryRequired), (''isbn'', IsbnRequired)]"
    and eu: "snd (book_validate ?u) =
      [(''title'', TitleRequired), (''author'', AuthorRequired),
       (''summary'', SummaryRequired), (''isbn'', IsbnRequired)]"
    and ev: "snd (book_validate ?v) = []"
    by (simp_all add: book_errors form_values)
  have vs: "clean (body ?s ''title'') = []" "clean (body ?s ''author'') = []"
    "clean (body ?s ''summary'') = []" "clean (body ?s ''isbn'') = []" "params_id ?s = ''b1''"
    and vu: "clean (body ?u ''title'') = []" "clean (body ?u ''author'') = []"
    "clean (body ?u ''summary'') = []" "clean (body ?u ''isbn'') = []" "params_id ?u = ''b1''"
    and vv: "clean (body ?v ''title'') = ''Persuasion''" "clean (body ?v ''author'') = ''a1''"
    "clean (body ?v ''summary'') = ''A novel''" "clean (body ?v ''isbn'') = ''9780141439686''"
    "params_id ?v = ''b3''"
    by (simp_all add: form_values)
  have none: "castObjectId [] = None"
    by (simp add: castObjectId_def isIdent_def isAlphanumeric_def)
  have ctx: "sort_key family_name (authors library) = [austen, borges, carroll]"
    "sort_key name (genres library) = [essay, fiction]"
    by (simp_all add: library_data)
  have f9: "findById book_id (books library) ''b9'' = None"
    and f3: "findById book_id (books library) ''b3'' = Some persuasion"
    by (simp_all add: findById_def library_data)
  have bl: "books library = [persuasion, ficciones, emma]"
    by (simp add: library_def)
  note n1 = genre_field_normalised [OF gu, of "''b9''" library persuasion]
  note n2 = genre_field_normalised [OF gs, of "''b9''" library persuasion]
  note n3 = genre_field_normalised [OF ga, of "''b9''" library persuasion]
  note n4 = genre_field_normalised [OF ge, of "''b9''" library persuasion]
  note n5 = genre_field_normalised [OF gv, of "''b9''" library persuasion]
  from n1 have r1: "body_genre (genre_to_array ?u) = Array []" by blast
  from n2 have r2: "body_genre (genre_to_array ?s) = Array [''g1'']" by blast
  from n3 have r3: "body_genre (genre_to_array (form ''b1'' [] (Array [''g1'', ''g2'']))) =
      Array [''g1'', ''g2'']" by blast
  from n4 have r4: "body_genre (fst (book_validate (form ''b1'' [] (Scalar ''<g>'')))) =
      Array [''&lt;g&gt;'']"
    by (simp add: escape_def escape_char_def)
  from n2 ids es have r5: "book_create_post ''b9'' ?s library =
       (library, [Render ''book_form''
          [(''authors'', AuthorsV [austen, borges, carroll]),
           (''genres'', CheckedGenresV [(essay, False), (fiction, True)]),
           (''book'',
            BookV \<lparr>book_id = ''b9'', title = [], author = None, summary = [], isbn = [],
                   genre = [''g1'']\<rparr>),
           (''errors'',
            ErrorsV [(''title'', TitleRequired), (''author'', AuthorRequired),
                     (''summary'', SummaryRequired), (''isbn'', IsbnRequired)])]])"
    by (simp add: vs none ctx book_form_context_def essay_def fiction_def)
  from n1 ids eu have r6: "book_update_post ?u library =
       (library, [Render ''book_form''
          [(''authors'', AuthorsV [austen, borges, carroll]),
           (''genres'', CheckedGenresV [(essay, False), (fiction, False)]),
           (''book'',
            BookV \<lparr>book_id = ''b1'', title = [], author = None, summary = [], isbn = [],
                   genre = []\<rparr>),
           (''errors'',
            ErrorsV [(''title'', TitleRequired), (''author'', AuthorRequired),
                     (''summary'', SummaryRequired), (''isbn'', IsbnRequired)])]])"
    by (simp add: vu none ctx book_form_context_def essay_def fiction_def)
  from n5 ids ev f9 have r7: "book_create_post ''b9'' ?v library =
       (library\<lparr>books := [persuasion, ficciones, emma,
                           \<lparr>book_id = ''b9'', title = ''Persuasion'', author = Some ''a1'',
                            summary = ''A novel'', isbn = ''9780141439686'',
                            genre = [''g2'']\<rparr>]\<rparr>,
        [Redirect ''/catalog/book/b9''])"
    by (simp add: vv bl)
  from genre_field_normalised [OF gv, of "''b9''" library persuasion] ids ev f3
  have r8: "map_option genre
        (findById book_id (books (fst (book_update_post ?v library))) ''b3'') = Some [''g2'']"
    and r9: "snd (book_update_post ?v library) = [Redirect ''/catalog/book/b3'']"
    by (simp_all add: vv)
  have e5: "snd (book_validate ?s) \<noteq> []"
    by (simp add: es)
  from r1 r2 r3 r4 e5 r5 r6 ev f9 r7 f3 r8 r9 show ?thesis by blast
qed

section \<open>What an update writes\<close>




end
